theory Spec2Isabelle
  imports Complex_Main
begin

section \<open>Strings of the front end\<close>

text \<open>
  A JavaScript string is a sequence of UTF-16 code units. Column names and report texts
  contain Japanese characters, so a string is modelled as the list of its code units
  (numbers below 65536). The functions below only compare and copy code units.
\<close>

type_synonym jsstring = "nat list"

definition ascii :: "string \<Rightarrow> jsstring" where
  "ascii s = map of_char s"

text \<open>
  Matching under the \<open>i\<close> flag of a regular expression without the \<open>u\<close> flag compares
  the canonical form of the two code units, which is the upper-case form; a code unit
  outside ASCII is never mapped into ASCII. Every character of the two patterns of
  \<open>onUpload\<close> is either an ASCII letter or a character without case, so for these patterns
  only the mapping of \<open>a\<close>..\<open>z\<close> to \<open>A\<close>..\<open>Z\<close> matters.
\<close>

definition canonicalize :: "nat \<Rightarrow> nat" where
  "canonicalize c = (if 97 \<le> c \<and> c \<le> 122 then c - 32 else c)"

text \<open>Does the literal \<open>pat\<close> match at the very start of the string?\<close>

fun matches_here :: "jsstring \<Rightarrow> jsstring \<Rightarrow> bool" where
  "matches_here [] s = True"
| "matches_here (p # ps) [] = False"
| "matches_here (p # ps) (c # cs) = (canonicalize p = canonicalize c \<and> matches_here ps cs)"

text \<open>An unanchored pattern is tried at every start position, from the left.\<close>

fun matches_somewhere :: "jsstring \<Rightarrow> jsstring \<Rightarrow> bool" where
  "matches_somewhere pat [] = matches_here pat []"
| "matches_somewhere pat (c # cs) = (matches_here pat (c # cs) \<or> matches_somewhere pat cs)"

text \<open>
  \<open>/a|b|c/i.test(s)\<close>: some alternative matches somewhere in \<open>s\<close>. The alternatives
  are plain literals.
\<close>

definition regex_test :: "jsstring list \<Rightarrow> jsstring \<Rightarrow> bool" where
  "regex_test alts s = list_ex (\<lambda>pat. matches_somewhere pat s) alts"

text \<open>
  The pattern \<open>/date|..|..|time|timestamp/i\<close> of the date column; its second and third
  alternatives are the two-character words U+65E5 U+6642 and U+65E5 U+4ED8.
\<close>

definition date_pattern :: "jsstring list" where
  "date_pattern =
     [ascii ''date'', [26085, 26178], [26085, 20184], ascii ''time'', ascii ''timestamp'']"

text \<open>
  The pattern \<open>/close|.|value|price|y/i\<close> of the value column; its second alternative
  is the single character U+7D42.
\<close>

definition value_pattern :: "jsstring list" where
  "value_pattern =
     [ascii ''close'', [32066], ascii ''value'', ascii ''price'', ascii ''y'']"

subsection \<open>Values that may be undefined\<close>

text \<open>
  \<open>xs[i]\<close> on an array is \<open>undefined\<close> out of range, and \<open>find\<close> is \<open>undefined\<close> when no
  element passes; \<open>undefined\<close> is \<open>None\<close>. The operator \<open>||\<close> yields its right operand
  when the left one is falsy: for a string or \<open>undefined\<close>, when it is \<open>undefined\<close> or the
  empty string.
\<close>

definition at_index :: "'a list \<Rightarrow> nat \<Rightarrow> 'a option" where
  "at_index xs i = (if i < length xs then Some (xs ! i) else None)"

definition truthy :: "jsstring option \<Rightarrow> bool" where
  "truthy v = (case v of None \<Rightarrow> False | Some s \<Rightarrow> s \<noteq> [])"

definition js_or :: "jsstring option \<Rightarrow> jsstring option \<Rightarrow> jsstring option" where
  "js_or a b = (if truthy a then a else b)"

text \<open>\<open>v || ''\<close>, a string in every case.\<close>

definition or_empty :: "jsstring option \<Rightarrow> jsstring" where
  "or_empty v = (case v of None \<Rightarrow> [] | Some s \<Rightarrow> s)"


section \<open>The types of \<open>types.ts\<close>\<close>

text \<open>
  A \<open>number\<close> is modelled as a real; no function below does arithmetic on the numbers of a
  response. A property marked \<open>?\<close> or a value \<open>T | null\<close> is an option. Where two types
  share a property name (\<open>ds\<close>, \<open>outliers\<close>, \<open>missing\<close>) the selector is written with its
  record's name. The properties \<open>min\<close>, \<open>max\<close>, \<open>id\<close> and \<open>text\<close> carry a prefix here, and
  \<open>rows\<close> of the preview's \<open>meta\<close> is \<open>meta_rows\<close>; the JSON member names below are the
  ones of the source.
\<close>

datatype cell = CellString jsstring | CellNumber real | CellNull

record preview_meta =
  meta_rows :: real
  encoding :: "jsstring option"

record PreviewResponse =
  columns :: "jsstring list"
  headRows :: "cell list list"
  meta :: "preview_meta option"

record HistoryPoint =
  ds :: jsstring
  y :: real

record ForecastPoint =
  ds :: jsstring
  yhat :: real
  yhat_lower :: real
  yhat_upper :: real

record diagnostics =
  outliers :: real
  missing :: real
  deduped :: real

record profile =
  rows :: real
  date_min :: "jsstring option"
  date_max :: "jsstring option"
  mean :: "real option"
  median :: "real option"
  profile_min :: "real option"
  profile_max :: "real option"
  std :: "real option"
  cv :: "real option"
  missing :: real
  duplicates :: real
  outliers :: real

record seasonality =
  weekly_strength :: jsstring
  weekend_delta_pct :: "real option"
  acf7 :: "real option"

record changepoint =
  date :: jsstring
  delta_slope :: real

record trend =
  slope_30d :: "real option"
  delta_3mo_pct :: "real option"
  changepoints :: "changepoint list option"

record forecast_summary =
  p50_5 :: "real option"
  lo_5 :: "real option"
  up_5 :: "real option"
  p50_30 :: "real option"
  lo_30 :: "real option"
  up_30 :: "real option"
  delta_30_pct :: "real option"
  band_ratio :: "real option"
  confidence :: jsstring

record explanations =
  business :: jsstring
  technical :: jsstring

record beat =
  beat_id :: jsstring
  beat_text :: jsstring
  highlight :: "jsstring list"
  waitMs :: real

record ForecastResponse =
  history :: "HistoryPoint list"
  forecast :: "ForecastPoint list"
  summaryText :: jsstring
  warnings :: "jsstring list"
  diagnostics :: "diagnostics option"
  profile :: "profile option"
  seasonality :: "seasonality option"
  trend :: "trend option"
  forecast_summary :: "forecast_summary option"
  explanations :: "explanations option"
  narrativeScript :: "beat list option"
  targets :: "(jsstring \<times> jsstring list) list option"

subsection \<open>The JSON value of a response\<close>

text \<open>
  The response arrives as JSON and is read with \<open>r.json() as ForecastResponse\<close>, so each
  type of \<open>types.ts\<close> describes a JSON value: an object with one member per property, under
  the property's name, in the order of the declaration. An optional property that is not
  set has no member; \<open>null\<close> is a member with the value \<open>null\<close>.
\<close>

datatype json =
  JNull
| JNumber real
| JString jsstring
| JArray "json list"
| JObject "(jsstring \<times> json) list"

definition member_names :: "json \<Rightarrow> jsstring list" where
  "member_names j = (case j of JObject ms \<Rightarrow> map fst ms | _ \<Rightarrow> [])"

definition member :: "json \<Rightarrow> jsstring \<Rightarrow> json option" where
  "member j name = (case j of JObject ms \<Rightarrow> map_of ms name | _ \<Rightarrow> None)"

definition nullable :: "('a \<Rightarrow> json) \<Rightarrow> 'a option \<Rightarrow> json" where
  "nullable enc v = (case v of None \<Rightarrow> JNull | Some x \<Rightarrow> enc x)"

definition optional :: "string \<Rightarrow> ('a \<Rightarrow> json) \<Rightarrow> 'a option \<Rightarrow> (jsstring \<times> json) list" where
  "optional name enc v = (case v of None \<Rightarrow> [] | Some x \<Rightarrow> [(ascii name, enc x)])"

definition strings_json :: "jsstring list \<Rightarrow> json" where
  "strings_json ss = JArray (map JString ss)"

definition HistoryPoint_json :: "HistoryPoint \<Rightarrow> json" where
  "HistoryPoint_json p =
     JObject [(ascii ''ds'', JString (HistoryPoint.ds p)), (ascii ''y'', JNumber (y p))]"

definition ForecastPoint_json :: "ForecastPoint \<Rightarrow> json" where
  "ForecastPoint_json p =
     JObject [(ascii ''ds'', JString (ForecastPoint.ds p)),
              (ascii ''yhat'', JNumber (yhat p)),
              (ascii ''yhat_lower'', JNumber (yhat_lower p)),
              (ascii ''yhat_upper'', JNumber (yhat_upper p))]"

definition diagnostics_json :: "diagnostics \<Rightarrow> json" where
  "diagnostics_json d =
     JObject [(ascii ''outliers'', JNumber (diagnostics.outliers d)),
              (ascii ''missing'', JNumber (diagnostics.missing d)),
              (ascii ''deduped'', JNumber (deduped d))]"

definition profile_json :: "profile \<Rightarrow> json" where
  "profile_json p =
     JObject [(ascii ''rows'', JNumber (rows p)),
              (ascii ''date_min'', nullable JString (date_min p)),
              (ascii ''date_max'', nullable JString (date_max p)),
              (ascii ''mean'', nullable JNumber (mean p)),
              (ascii ''median'', nullable JNumber (median p)),
              (ascii ''min'', nullable JNumber (profile_min p)),
              (ascii ''max'', nullable JNumber (profile_max p)),
              (ascii ''std'', nullable JNumber (std p)),
              (ascii ''cv'', nullable JNumber (cv p)),
              (ascii ''missing'', JNumber (profile.missing p)),
              (ascii ''duplicates'', JNumber (duplicates p)),
              (ascii ''outliers'', JNumber (profile.outliers p))]"

definition seasonality_json :: "seasonality \<Rightarrow> json" where
  "seasonality_json s =
     JObject [(ascii ''weekly_strength'', JString (weekly_strength s)),
              (ascii ''weekend_delta_pct'', nullable JNumber (weekend_delta_pct s)),
              (ascii ''acf7'', nullable JNumber (acf7 s))]"

definition changepoint_json :: "changepoint \<Rightarrow> json" where
  "changepoint_json c =
     JObject [(ascii ''date'', JString (date c)), (ascii ''delta_slope'', JNumber (delta_slope c))]"

definition trend_json :: "trend \<Rightarrow> json" where
  "trend_json t =
     JObject ([(ascii ''slope_30d'', nullable JNumber (slope_30d t)),
               (ascii ''delta_3mo_pct'', nullable JNumber (delta_3mo_pct t))]
              @ optional ''changepoints'' (\<lambda>cs. JArray (map changepoint_json cs)) (changepoints t))"

definition forecast_summary_json :: "forecast_summary \<Rightarrow> json" where
  "forecast_summary_json f =
     JObject [(ascii ''p50_5'', nullable JNumber (p50_5 f)),
              (ascii ''lo_5'', nullable JNumber (lo_5 f)),
              (ascii ''up_5'', nullable JNumber (up_5 f)),
              (ascii ''p50_30'', nullable JNumber (p50_30 f)),
              (ascii ''lo_30'', nullable JNumber (lo_30 f)),
              (ascii ''up_30'', nullable JNumber (up_30 f)),
              (ascii ''delta_30_pct'', nullable JNumber (delta_30_pct f)),
              (ascii ''band_ratio'', nullable JNumber (band_ratio f)),
              (ascii ''confidence'', JString (confidence f))]"

definition explanations_json :: "explanations \<Rightarrow> json" where
  "explanations_json e =
     JObject [(ascii ''business'', JString (business e)),
              (ascii ''technical'', JString (technical e))]"

definition beat_json :: "beat \<Rightarrow> json" where
  "beat_json b =
     JObject [(ascii ''id'', JString (beat_id b)),
              (ascii ''text'', JString (beat_text b)),
              (ascii ''highlight'', strings_json (highlight b)),
              (ascii ''waitMs'', JNumber (waitMs b))]"

definition targets_json :: "(jsstring \<times> jsstring list) list \<Rightarrow> json" where
  "targets_json ts = JObject (map (\<lambda>(k, v). (k, strings_json v)) ts)"

definition ForecastResponse_json :: "ForecastResponse \<Rightarrow> json" where
  "ForecastResponse_json r =
     JObject ([(ascii ''history'', JArray (map HistoryPoint_json (history r))),
               (ascii ''forecast'', JArray (map ForecastPoint_json (forecast r))),
               (ascii ''summaryText'', JString (summaryText r)),
               (ascii ''warnings'', strings_json (warnings r))]
              @ optional ''diagnostics'' diagnostics_json (diagnostics r)
              @ optional ''profile'' profile_json (profile r)
              @ optional ''seasonality'' seasonality_json (seasonality r)
              @ optional ''trend'' trend_json (trend r)
              @ optional ''forecast_summary'' forecast_summary_json (forecast_summary r)
              @ optional ''explanations'' explanations_json (explanations r)
              @ optional ''narrativeScript'' (\<lambda>bs. JArray (map beat_json bs)) (narrativeScript r)
              @ optional ''targets'' targets_json (targets r))"

text \<open>The field names that the specification lists for a response.\<close>

definition listed_names :: "jsstring list" where
  "listed_names = map ascii
     [''history'', ''forecast'', ''profile'', ''seasonality'', ''trend'', ''forecast_summary'',
      ''explanations'', ''narrativeScript'', ''warnings'', ''diagnostics'']"

subsection \<open>What the forecast request can bring back\<close>

text \<open>
  \<open>r.json()\<close> yields whatever JSON the back end sent, and the cast \<open>as ForecastResponse\<close>
  checks nothing. The body is either of the declared shape, or it is the body of a request
  that the back end refused: the object \<open>{detail: ...}\<close> in which its framework (FastAPI,
  by the back end's README) reports an error. The cell \<open>result\<close> can hold either.
\<close>

datatype response_body = Response ForecastResponse | ErrorBody json


section \<open>The component \<open>App\<close>\<close>

text \<open>
  The state of the component is the tuple of its \<open>useState\<close> cells. A \<open>File\<close> is
  represented by its name; the step, tab and beat indices are JavaScript numbers that only
  ever hold integers.
\<close>

record app =
  tab :: int
  activeStep :: int
  "file" :: "jsstring option"
  preview :: "PreviewResponse option"
  dateCol :: jsstring
  valueCol :: jsstring
  horizon :: real
  busy :: bool
  result :: "response_body option"
  reportMode :: bool
  currentScript :: int
  highlightedMetrics :: "jsstring list"
  summaryModalOpen :: bool

definition initial :: app where
  "initial = \<lparr>tab = 0, activeStep = 0, file = None, preview = None, dateCol = [],
              valueCol = [], horizon = 30, busy = False, result = None, reportMode = False,
              currentScript = 0, highlightedMetrics = [], summaryModalOpen = False\<rparr>"

subsection \<open>Uploading a file and choosing the columns\<close>

text \<open>
  The two lines of \<open>onUpload\<close> after \<open>setPreview(json)\<close>:
  \<^verbatim>\<open>const d = json.columns.find(c => /date|..|..|time|timestamp/i.test(c)) || json.columns[0]\<close>
  \<^verbatim>\<open>const v = json.columns.find(c => /close|.|value|price|y/i.test(c)) || json.columns[1] || json.columns[0]\<close>
  followed by \<open>setDateCol(d || '')\<close> and \<open>setValueCol(v || '')\<close>.
\<close>

definition pick_date :: "jsstring list \<Rightarrow> jsstring" where
  "pick_date cols =
     (let d = js_or (find (regex_test date_pattern) cols) (at_index cols 0)
      in or_empty d)"

definition pick_value :: "jsstring list \<Rightarrow> jsstring" where
  "pick_value cols =
     (let v = js_or (js_or (find (regex_test value_pattern) cols) (at_index cols 1))
                    (at_index cols 0)
      in or_empty v)"

text \<open>
  \<open>onUpload\<close> stores the file at once; the local parse and the request to \<open>/api/preview\<close>
  complete later. The request ends in one of three ways: a response with \<open>r.ok\<close> and a JSON
  body, a response without \<open>r.ok\<close>, or an exception, which the empty \<open>catch\<close> swallows.
\<close>

datatype preview_outcome = PreviewOk PreviewResponse | PreviewNotOk | PreviewThrows

definition onUpload_file :: "jsstring \<Rightarrow> app \<Rightarrow> app" where
  "onUpload_file f st = st\<lparr>file := Some f\<rparr>"

definition onUpload_parsed :: "jsstring list \<Rightarrow> cell list list \<Rightarrow> app \<Rightarrow> app" where
  "onUpload_parsed cols rs st =
     st\<lparr>preview := Some \<lparr>columns = cols, headRows = rs, meta = None\<rparr>\<rparr>"

definition onUpload_response :: "preview_outcome \<Rightarrow> app \<Rightarrow> app" where
  "onUpload_response out st =
     (case out of
        PreviewOk json \<Rightarrow>
          st\<lparr>preview := Some json,
             dateCol := pick_date (columns json),
             valueCol := pick_value (columns json)\<rparr>
      | PreviewNotOk \<Rightarrow> st
      | PreviewThrows \<Rightarrow> st)"

subsection \<open>The wizard\<close>

definition canNext :: "app \<Rightarrow> bool" where
  "canNext st =
     (if activeStep st = 0 then file st \<noteq> None
      else if activeStep st = 1 then True
      else if activeStep st = 2 then True
      else if activeStep st = 3 then dateCol st \<noteq> [] \<and> valueCol st \<noteq> []
      else if activeStep st = 4 then True
      else False)"

text \<open>The two buttons under the wizard; a disabled button does nothing.\<close>

definition onBack :: "app \<Rightarrow> app" where
  "onBack st = (if activeStep st = 0 then st
                else st\<lparr>activeStep := max 0 (activeStep st - 1)\<rparr>)"

definition onNext :: "app \<Rightarrow> app" where
  "onNext st = (if \<not> canNext st then st
                else st\<lparr>activeStep := min 4 (activeStep st + 1)\<rparr>)"

subsection \<open>Running the forecast\<close>

text \<open>
  \<open>runForecast\<close> awaits \<open>fetch\<close> and \<open>r.json()\<close>. Either a response arrives, with its flag
  \<open>r.ok\<close> and its JSON body, or one of the two throws (no connection, or a body that is not
  JSON). Unlike \<open>onUpload\<close>, \<open>runForecast\<close> never reads \<open>r.ok\<close>.
\<close>

datatype forecast_outcome = ForecastBody bool response_body | ForecastThrows

text \<open>
  The response that the \<open>catch\<close> branch builds. Its \<open>summaryText\<close> and its one warning are
  Japanese sentences, given here by their code units.
\<close>

definition failure_response :: ForecastResponse where
  "failure_response =
     \<lparr>history = [], forecast = [],
      summaryText = [12456, 12521, 12540, 12364, 30330, 29983, 12375, 12414, 12375, 12383, 12290],
      warnings = [[65, 80, 73, 21628, 12403, 20986, 12375, 12395, 22833, 25943, 12375, 12414,
                   12375, 12383, 12290]],
      diagnostics = None, profile = None, seasonality = None, trend = None,
      forecast_summary = None, explanations = None, narrativeScript = None, targets = None\<rparr>"

definition runForecast :: "forecast_outcome \<Rightarrow> app \<Rightarrow> app" where
  "runForecast out st =
     (if file st = None \<or> dateCol st = [] \<or> valueCol st = [] then st
      else
        let st1 = st\<lparr>busy := True, tab := 1\<rparr>;
            st2 = (case out of
                     ForecastBody ok json \<Rightarrow> st1\<lparr>result := Some json\<rparr>
                   | ForecastThrows \<Rightarrow> st1\<lparr>result := Some (Response failure_response)\<rparr>)
        in st2\<lparr>busy := False\<rparr>)"

subsection \<open>Report mode\<close>

text \<open>
  \<open>result.narrativeScript?.[i]\<close>: the beat at index \<open>i\<close>, undefined when there is no
  script or the index is out of range.
\<close>

definition script_at :: "ForecastResponse \<Rightarrow> int \<Rightarrow> beat option" where
  "script_at r i =
     (case narrativeScript r of
        None \<Rightarrow> None
      | Some bs \<Rightarrow> if 0 \<le> i \<and> i < int (length bs) then Some (bs ! nat i) else None)"

definition script_length :: "ForecastResponse \<Rightarrow> int" where
  "script_length r = (case narrativeScript r of None \<Rightarrow> 0 | Some bs \<Rightarrow> int (length bs))"

text \<open>
  The handlers below close over \<open>result\<close>, which is not null where their buttons are
  rendered; the response is their first argument.
\<close>

definition toggleReportMode :: "ForecastResponse \<Rightarrow> app \<Rightarrow> app" where
  "toggleReportMode r st =
     (let st1 = st\<lparr>reportMode := \<not> reportMode st\<rparr>
      in if \<not> reportMode st then
           (let st2 = st1\<lparr>currentScript := 0\<rparr>
            in case script_at r 0 of
                 Some firstScript \<Rightarrow> st2\<lparr>highlightedMetrics := highlight firstScript\<rparr>
               | None \<Rightarrow> st2)
         else st1\<lparr>highlightedMetrics := []\<rparr>)"

definition closeReport :: "app \<Rightarrow> app" where
  "closeReport st = st\<lparr>reportMode := False, highlightedMetrics := []\<rparr>"

definition nextBeat :: "ForecastResponse \<Rightarrow> app \<Rightarrow> app" where
  "nextBeat r st =
     (if currentScript st \<ge> script_length r then st
      else if currentScript st < script_length r - 1 then
        (let st1 = st\<lparr>currentScript := currentScript st + 1\<rparr>
         in case script_at r (currentScript st + 1) of
              Some nextScript \<Rightarrow> st1\<lparr>highlightedMetrics := highlight nextScript\<rparr>
            | None \<Rightarrow> st1)
      else st\<lparr>highlightedMetrics := []\<rparr>)"

definition replay :: "ForecastResponse \<Rightarrow> app \<Rightarrow> app" where
  "replay r st =
     (let st1 = st\<lparr>currentScript := 0\<rparr>
      in case script_at r 0 of
           Some firstScript \<Rightarrow> st1\<lparr>highlightedMetrics := highlight firstScript\<rparr>
         | None \<Rightarrow> st1)"

subsection \<open>Events\<close>

text \<open>
  Every handler of the component as one step function. An event whose control is not
  rendered in the current state leaves the state as it is: the wizard is rendered on tab 0,
  the report button on tab 1 of a result with a script, the beat controls in report mode.
  Of a body \<open>{detail: ...}\<close> every property of a response is undefined.
\<close>

datatype event =
  SelectTab int
| ChooseFile jsstring
| Parsed "jsstring list" "cell list list"
| PreviewDone preview_outcome
| PickTimeSeries
| PickMethod
| SetDateCol jsstring
| SetValueCol jsstring
| SetHorizon real
| Back
| Next
| RunForecast forecast_outcome
| OpenSummary
| CloseSummary
| ToggleReport
| CloseReport
| NextBeat
| Replay

definition with_script :: "app \<Rightarrow> ForecastResponse option" where
  "with_script st =
     (case result st of
        None \<Rightarrow> None
      | Some (ErrorBody detail) \<Rightarrow> None
      | Some (Response r) \<Rightarrow> if narrativeScript r = None then None else Some r)"

fun handler :: "app \<Rightarrow> event \<Rightarrow> app" where
  "handler st (SelectTab v) = st\<lparr>tab := v\<rparr>"
| "handler st (ChooseFile f) =
     (if tab st = 0 \<and> activeStep st = 0 then onUpload_file f st else st)"
| "handler st (Parsed cols rs) = onUpload_parsed cols rs st"
| "handler st (PreviewDone out) = onUpload_response out st"
| "handler st PickTimeSeries =
     (if tab st = 0 \<and> activeStep st = 1 then st\<lparr>activeStep := 2\<rparr> else st)"
| "handler st PickMethod =
     (if tab st = 0 \<and> activeStep st = 2 then st\<lparr>activeStep := 3\<rparr> else st)"
| "handler st (SetDateCol s) =
     (if tab st = 0 \<and> activeStep st = 3 then st\<lparr>dateCol := s\<rparr> else st)"
| "handler st (SetValueCol s) =
     (if tab st = 0 \<and> activeStep st = 3 then st\<lparr>valueCol := s\<rparr> else st)"
| "handler st (SetHorizon h) =
     (if tab st = 0 \<and> activeStep st = 3 then st\<lparr>horizon := h\<rparr> else st)"
| "handler st Back = (if tab st = 0 then onBack st else st)"
| "handler st Next = (if tab st = 0 then onNext st else st)"
| "handler st (RunForecast out) =
     (if tab st = 0 \<and> activeStep st = 4 \<and> \<not> busy st then runForecast out st else st)"
| "handler st OpenSummary =
     (if tab st = 1 \<and> result st \<noteq> None then st\<lparr>summaryModalOpen := True\<rparr> else st)"
| "handler st CloseSummary =
     (if tab st = 1 then st\<lparr>summaryModalOpen := False\<rparr> else st)"
| "handler st ToggleReport =
     (case with_script st of
        Some r \<Rightarrow> if tab st = 1 then toggleReportMode r st else st
      | None \<Rightarrow> st)"
| "handler st CloseReport =
     (if reportMode st \<and> with_script st \<noteq> None then closeReport st else st)"
| "handler st NextBeat =
     (case with_script st of
        Some r \<Rightarrow> if reportMode st then nextBeat r st else st
      | None \<Rightarrow> st)"
| "handler st Replay =
     (case with_script st of
        Some r \<Rightarrow> if reportMode st then replay r st else st
      | None \<Rightarrow> st)"

text \<open>
  On the result tab the chart is drawn from \<open>result.history.map(...)\<close> whenever \<open>result\<close> is
  not null. With a body \<open>{detail: ...}\<close> in the cell, \<open>result.history\<close> is undefined and the
  render throws; the component is then gone, and with it every handler.
\<close>

definition render_throws :: "app \<Rightarrow> bool" where
  "render_throws st =
     (tab st = 1 \<and> (case result st of Some (ErrorBody detail) \<Rightarrow> True | _ \<Rightarrow> False))"

definition fire :: "app \<Rightarrow> event \<Rightarrow> app" where
  "fire st e = (if render_throws st then st else handler st e)"

definition run :: "app \<Rightarrow> event list \<Rightarrow> app" where
  "run st es = foldl fire st es"

section \<open>The Forecaster of the specification\<close>

text \<open>
  The back end that answers \<open>/api/forecast\<close> is not among the sources; only its README
  is. The stage that consumes \<open>horizon_days\<close> is therefore taken from the specification
  (sections 3, 4.4, 7 and 8). A calendar date is a day number, so that the day after \<open>d\<close> is
  \<open>d + 1\<close>.
\<close>

text \<open>
  Modelled from the spec: the Observation and the ForecastPoint of section 3, which the
  missing back end builds ("(timestamp: calendar date, value: real number)" and "(date,
  point_estimate, lower_bound, upper_bound)").
\<close>

record observation =
  timestamp :: int
  obs_value :: real

record forecast_point =
  point_date :: int
  point_estimate :: real
  lower_bound :: real
  upper_bound :: real

text \<open>
  Modelled from the spec: the error kinds of the missing back end, which are those of
  section 7 and the validation error that section 8 requires for a horizon of zero.
\<close>

datatype error =
  ParseError
| ColumnNotFoundError
| EmptySeriesError
| InsufficientDataError
| ForecastLibraryError
| ValidationError

text \<open>
  Modelled from the spec: the external forecasting library that the missing back end calls.
  Fitting a series fails, or gives a predictor from a date to the point estimate and the two
  bounds; nothing is assumed about the three numbers.
\<close>

type_synonym library = "observation list \<Rightarrow> (int \<Rightarrow> real \<times> real \<times> real) option"

text \<open>
  Modelled from the spec: the minimum number of points of the Forecaster, which belongs to
  the missing back end ("fewer than a minimum number of points (library-dependent,
  typically 2)").
\<close>

definition minimum_points :: nat where
  "minimum_points = 2"

text \<open>
  Modelled from the spec: the dates of the Forecaster's output, which the missing back end
  computes ("contiguous calendar days following the last historical date").
\<close>

definition future_dates :: "int \<Rightarrow> nat \<Rightarrow> int list" where
  "future_dates last_date n = map (\<lambda>i. last_date + 1 + int i) [0..<n]"

text \<open>
  Modelled from the spec: the Forecaster of the missing back end. Its horizon is a positive
  integer, and a horizon of zero (or below) is a validation error; a series below the minimum is an
  \<open>InsufficientDataError\<close>; a failure of the library is a \<open>ForecastLibraryError\<close>;
  otherwise there is one point per future date, with the library's three numbers.
\<close>

definition forecaster :: "library \<Rightarrow> observation list \<Rightarrow> int \<Rightarrow> error + forecast_point list" where
  "forecaster lib series horizon_days =
     (if horizon_days \<le> 0 then Inl ValidationError
      else if length series < minimum_points then Inl InsufficientDataError
      else case lib series of
             None \<Rightarrow> Inl ForecastLibraryError
           | Some predict \<Rightarrow>
               Inr (map (\<lambda>d. case predict d of
                                (p, lo, up) \<Rightarrow> \<lparr>point_date = d, point_estimate = p,
                                               lower_bound = lo, upper_bound = up\<rparr>)
                        (future_dates (timestamp (last series)) (nat horizon_days))))"

section \<open>Sample values\<close>

definition sample_beat :: beat where
  "sample_beat = \<lparr>beat_id = ascii ''b1'', beat_text = ascii ''Mean'',
                   highlight = [ascii ''profile.mean''], waitMs = 1200\<rparr>"

definition second_beat :: beat where
  "second_beat = \<lparr>beat_id = ascii ''b2'', beat_text = ascii ''Outlook'',
                   highlight = [ascii ''forecast.p50_30'', ascii ''forecast.confidence''],
                   waitMs = 1500\<rparr>"

text \<open>A response in which every optional part except \<open>targets\<close> is set.\<close>

definition sample_response :: ForecastResponse where
  "sample_response =
     \<lparr>history = [\<lparr>HistoryPoint.ds = ascii ''2024-01-01'', y = 100\<rparr>,
                 \<lparr>HistoryPoint.ds = ascii ''2024-01-02'', y = 102\<rparr>],
      forecast = [\<lparr>ForecastPoint.ds = ascii ''2024-01-03'', yhat = 101, yhat_lower = 99,
                   yhat_upper = 103\<rparr>],
      summaryText = ascii ''ok'',
      warnings = [],
      diagnostics = Some \<lparr>diagnostics.outliers = 0, diagnostics.missing = 0, deduped = 0\<rparr>,
      profile = Some \<lparr>rows = 2, date_min = Some (ascii ''2024-01-01''),
                      date_max = Some (ascii ''2024-01-02''), mean = Some 101,
                      median = Some 101, profile_min = Some 100, profile_max = Some 102,
                      std = Some 1, cv = Some (1 / 101), profile.missing = 0, duplicates = 0,
                      profile.outliers = 0\<rparr>,
      seasonality = Some \<lparr>weekly_strength = ascii ''low'', weekend_delta_pct = None,
                          acf7 = None\<rparr>,
      trend = Some \<lparr>slope_30d = Some 2, delta_3mo_pct = None, changepoints = Some []\<rparr>,
      forecast_summary = Some \<lparr>p50_5 = Some 101, lo_5 = Some 99, up_5 = Some 103,
                               p50_30 = Some 101, lo_30 = Some 99, up_30 = Some 103,
                               delta_30_pct = Some (-1), band_ratio = Some (4 / 101),
                               confidence = ascii ''high''\<rparr>,
      explanations = Some \<lparr>business = ascii ''flat'', technical = ascii ''prophet''\<rparr>,
      narrativeScript = Some [sample_beat, second_beat],
      targets = None\<rparr>"

text \<open>The wizard at its last step, with a file and both columns chosen.\<close>

definition ready :: app where
  "ready = initial\<lparr>activeStep := 4, file := Some (ascii ''toyota_7203.csv''),
                   dateCol := ascii ''Date'', valueCol := ascii ''Close''\<rparr>"

text \<open>The result tab in report mode, at the second beat of the sample response.\<close>

definition reporting :: app where
  "reporting = ready\<lparr>tab := 1, result := Some (Response sample_response), reportMode := True,
                      currentScript := 1, highlightedMetrics := highlight second_beat\<rparr>"

definition sample_series :: "observation list" where
  "sample_series = [\<lparr>timestamp = 19723, obs_value = 100\<rparr>, \<lparr>timestamp = 19724, obs_value = 102\<rparr>]"

definition flat_library :: library where
  "flat_library series = Some (\<lambda>d. (101, 99, 103))"

definition no_columns :: PreviewResponse where
  "no_columns = \<lparr>columns = [], headRows = [], meta = None\<rparr>"

definition preview_of :: "jsstring list \<Rightarrow> PreviewResponse" where
  "preview_of cols = \<lparr>columns = cols, headRows = [], meta = None\<rparr>"

text \<open>The result tab with the sample response shown, report mode off.\<close>

definition viewing :: app where
  "viewing = ready\<lparr>tab := 1, result := Some (Response sample_response)\<rparr>"

text \<open>The wizard at the column step, before any column is chosen.\<close>

definition at_columns :: app where
  "at_columns = initial\<lparr>activeStep := 3, file := Some (ascii ''toyota_7203.csv'')\<rparr>"

subsection \<open>The range of the wizard's step\<close>

definition in_range :: "app \<Rightarrow> bool" where
  "in_range st = (0 \<le> activeStep st \<and> activeStep st \<le> 4)"


text \<open>
  Headers of previews: of a price file, with the date in capitals and a second date-like
  column; with the Japanese names U+65E5 U+4ED8 and U+7D42 U+5024; and without any match.
\<close>

definition price_header :: "jsstring list" where
  "price_header = map ascii [''Open'', ''DATE'', ''Close'', ''Timestamp'', ''Yield'']"

definition japanese_header :: "jsstring list" where
  "japanese_header = [ascii ''code'', [26085, 20184], [32066, 20516]]"

definition plain_header :: "jsstring list" where
  "plain_header = map ascii [''a'', ''b'', ''c'']"

section \<open>The two patterns, as the specification words them\<close>

text \<open>
  A name matches a pattern when one of the pattern's words occurs in it, upper and lower
  case of the letters A to Z taken as the same. This is written here without the matcher of
  the code: the letters are compared in lower case, and the word is looked for at each
  position of the name in turn.
\<close>

definition lower_case :: "nat \<Rightarrow> nat" where
  "lower_case c = (if 65 \<le> c \<and> c \<le> 90 then c + 32 else c)"

definition occurs_in :: "jsstring \<Rightarrow> jsstring \<Rightarrow> bool" where
  "occurs_in word name =
     list_ex (\<lambda>i. map lower_case (take (length word) (drop i name)) = map lower_case word)
             [0..<Suc (length name)]"

text \<open>The words date, U+65E5 U+6642, U+65E5 U+4ED8, time and timestamp.\<close>

definition names_a_date :: "jsstring \<Rightarrow> bool" where
  "names_a_date name =
     (occurs_in [100, 97, 116, 101] name
      \<or> occurs_in [26085, 26178] name
      \<or> occurs_in [26085, 20184] name
      \<or> occurs_in [116, 105, 109, 101] name
      \<or> occurs_in [116, 105, 109, 101, 115, 116, 97, 109, 112] name)"

text \<open>The words close, U+7D42, value, price and y.\<close>

definition names_a_value :: "jsstring \<Rightarrow> bool" where
  "names_a_value name =
     (occurs_in [99, 108, 111, 115, 101] name
      \<or> occurs_in [32066] name
      \<or> occurs_in [118, 97, 108, 117, 101] name
      \<or> occurs_in [112, 114, 105, 99, 101] name
      \<or> occurs_in [121] name)"

section \<open>What the matcher decides\<close>

text \<open>
  A literal matches at the start of a string when a prefix of the string equals it up to
  the case of ASCII letters, and somewhere in the string when a substring does.
\<close>

lemma matches_here_iff:
  "matches_here pat s \<longleftrightarrow> (\<exists>v w. s = v @ w \<and> map canonicalize v = map canonicalize pat)"
proof (induction pat s rule: matches_here.induct)
  case (1 s)
  then show ?case by simp
next
  case (2 p ps)
  then show ?case by simp
next
  case (3 p ps c cs)
  show ?case
  proof
    assume "matches_here (p # ps) (c # cs)"
    then have pc: "canonicalize p = canonicalize c" and "matches_here ps cs" by simp_all
    with 3 obtain v w where "cs = v @ w" "map canonicalize v = map canonicalize ps" by blast
    with pc have "c # cs = (c # v) @ w \<and> map canonicalize (c # v) = map canonicalize (p # ps)"
      by simp
    then show "\<exists>v w. c # cs = v @ w \<and> map canonicalize v = map canonicalize (p # ps)"
      by blast
  next
    assume "\<exists>v w. c # cs = v @ w \<and> map canonicalize v = map canonicalize (p # ps)"
    then obtain v w where vw: "c # cs = v @ w" "map canonicalize v = map canonicalize (p # ps)"
      by blast
    from vw(2) obtain x v' where v: "v = x # v'" by (cases v) auto
    with vw have "x = c" "cs = v' @ w" "canonicalize c = canonicalize p"
      "map canonicalize v' = map canonicalize ps" by auto
    with 3 show "matches_here (p # ps) (c # cs)" by auto
  qed
qed

lemma matches_somewhere_iff:
  "matches_somewhere pat s \<longleftrightarrow>
     (\<exists>u v w. s = u @ v @ w \<and> map canonicalize v = map canonicalize pat)"
proof (induction s)
  case Nil
  then show ?case by (auto simp: matches_here_iff)
next
  case (Cons c cs)
  note IH = Cons.IH
  show ?case
  proof
    assume "matches_somewhere pat (c # cs)"
    then consider "matches_here pat (c # cs)" | "matches_somewhere pat cs" by auto
    then show "\<exists>u v w. c # cs = u @ v @ w \<and> map canonicalize v = map canonicalize pat"
    proof cases
      case 1
      then obtain v w where "c # cs = [] @ v @ w" "map canonicalize v = map canonicalize pat"
        by (auto simp: matches_here_iff)
      then show ?thesis by blast
    next
      case 2
      with IH obtain u v w where "cs = u @ v @ w" "map canonicalize v = map canonicalize pat"
        by blast
      then have "c # cs = (c # u) @ v @ w \<and> map canonicalize v = map canonicalize pat" by simp
      then show ?thesis by blast
    qed
  next
    assume "\<exists>u v w. c # cs = u @ v @ w \<and> map canonicalize v = map canonicalize pat"
    then obtain u v w where uvw: "c # cs = u @ v @ w" "map canonicalize v = map canonicalize pat"
      by blast
    show "matches_somewhere pat (c # cs)"
    proof (cases u)
      case Nil
      with uvw have "matches_here pat (c # cs)" by (auto simp: matches_here_iff)
      then show ?thesis by simp
    next
      case (Cons x u')
      with uvw have "cs = u' @ v @ w" by simp
      with uvw(2) IH have "matches_somewhere pat cs" by blast
      then show ?thesis by simp
    qed
  qed
qed

lemma matches_here_nonempty: "matches_here pat [] \<Longrightarrow> pat = []"
  by (cases pat) simp_all

lemma regex_test_empty: "[] \<notin> set alts \<Longrightarrow> \<not> regex_test alts []"
  by (auto simp: regex_test_def list_ex_iff dest: matches_here_nonempty)

lemma date_pattern_nonempty: "[] \<notin> set date_pattern"
  by (simp add: date_pattern_def ascii_def)

lemma value_pattern_nonempty: "[] \<notin> set value_pattern"
  by (simp add: value_pattern_def ascii_def)

subsection \<open>The matcher of the code decides the patterns as worded\<close>

lemma canonicalize_eq_iff: "canonicalize a = canonicalize b \<longleftrightarrow> lower_case a = lower_case b"
  by (auto simp: canonicalize_def lower_case_def)

lemma map_canonicalize_eq_iff:
  "map canonicalize v = map canonicalize p \<longleftrightarrow> map lower_case v = map lower_case p"
proof (induction v arbitrary: p)
  case Nil
  then show ?case by simp
next
  case (Cons a v)
  then show ?case by (cases p) (simp_all add: canonicalize_eq_iff)
qed

lemma occurs_in_iff:
  "occurs_in word name \<longleftrightarrow>
     (\<exists>i \<le> length name. map lower_case (take (length word) (drop i name)) = map lower_case word)"
proof -
  have "set [0..<Suc (length name)] = {i. i \<le> length name}"
    by auto
  then show ?thesis
    unfolding occurs_in_def list_ex_iff by simp
qed

lemma matches_somewhere_occurs: "matches_somewhere word name \<longleftrightarrow> occurs_in word name"
proof
  assume "matches_somewhere word name"
  then obtain u v w where uvw: "name = u @ v @ w" "map canonicalize v = map canonicalize word"
    by (auto simp: matches_somewhere_iff)
  from uvw(2) have len: "length v = length word" by (rule map_eq_imp_length_eq)
  from uvw(2) have low: "map lower_case v = map lower_case word"
    by (simp add: map_canonicalize_eq_iff)
  have "length u \<le> length name" using uvw(1) by simp
  moreover have "take (length word) (drop (length u) name) = v"
    using uvw(1) len by simp
  ultimately show "occurs_in word name"
    using low unfolding occurs_in_iff by blast
next
  assume "occurs_in word name"
  then obtain i where i: "i \<le> length name"
    "map lower_case (take (length word) (drop i name)) = map lower_case word"
    unfolding occurs_in_iff by blast
  let ?u = "take i name" and ?v = "take (length word) (drop i name)"
  let ?w = "drop (length word) (drop i name)"
  have "?v @ ?w = drop i name" by (rule append_take_drop_id)
  moreover have "?u @ drop i name = name" by (rule append_take_drop_id)
  ultimately have "name = ?u @ ?v @ ?w" by metis
  moreover have "map canonicalize ?v = map canonicalize word"
    using i(2) by (simp only: map_canonicalize_eq_iff)
  ultimately have "\<exists>u v w. name = u @ v @ w \<and> map canonicalize v = map canonicalize word"
    by blast
  then show "matches_somewhere word name"
    by (simp only: matches_somewhere_iff)
qed

lemma regex_test_date: "regex_test date_pattern name = names_a_date name"
  by (simp add: regex_test_def date_pattern_def names_a_date_def matches_somewhere_occurs
           ascii_def)

lemma regex_test_value: "regex_test value_pattern name = names_a_value name"
  by (simp add: regex_test_def value_pattern_def names_a_value_def matches_somewhere_occurs
           ascii_def)

section \<open>Column selection after a preview\<close>

text \<open>
  No alternative of a pattern is empty, so a column that \<open>find\<close> returns has a non-empty
  name and \<open>||\<close> keeps it.
\<close>

lemma found_is_truthy:
  assumes "[] \<notin> set alts" and "find (regex_test alts) cols = Some c"
  shows "truthy (Some c)"
proof -
  from assms(2) have "regex_test alts c" by (auto simp: find_Some_iff)
  with assms(1) have "c \<noteq> []" using regex_test_empty by blast
  then show ?thesis by (simp add: truthy_def)
qed

lemma pick_date_eq:
  "pick_date cols =
     (case find (regex_test date_pattern) cols of
        Some c \<Rightarrow> c
      | None \<Rightarrow> (case cols of [] \<Rightarrow> [] | c0 # cs \<Rightarrow> c0))"
proof (cases "find (regex_test date_pattern) cols")
  case None
  then show ?thesis
    by (simp add: pick_date_def or_empty_def at_index_def js_or_def truthy_def
             split: list.splits)
next
  case (Some c)
  with found_is_truthy [OF date_pattern_nonempty Some] show ?thesis
    by (simp add: pick_date_def or_empty_def js_or_def)
qed

lemma pick_value_eq:
  "pick_value cols =
     (case find (regex_test value_pattern) cols of
        Some c \<Rightarrow> c
      | None \<Rightarrow> (case cols of
                   [] \<Rightarrow> []
                 | [c0] \<Rightarrow> c0
                 | c0 # c1 # cs \<Rightarrow> if c1 \<noteq> [] then c1 else c0))"
proof (cases "find (regex_test value_pattern) cols")
  case None
  then show ?thesis
    by (simp add: pick_value_def or_empty_def at_index_def js_or_def truthy_def
             split: list.splits)
next
  case (Some c)
  with found_is_truthy [OF value_pattern_nonempty Some] show ?thesis
    by (simp add: pick_value_def or_empty_def js_or_def)
qed

text \<open>
  C10. After a successful preview the date column is the first column whose name has one of
  the words date, U+65E5 U+6642, U+65E5 U+4ED8, time or timestamp in it, in any case of the
  letters, else the first column; the value column is the first column whose name has one of
  close, U+7D42, value, price or y in it, else the second column (when it has a non-empty
  name), else the first; with no columns both are the empty string.
\<close>

theorem onUpload_picks_columns:
  "dateCol (onUpload_response (PreviewOk json) st) =
     (case find names_a_date (columns json) of
        Some c \<Rightarrow> c
      | None \<Rightarrow> (case columns json of [] \<Rightarrow> [] | c0 # cs \<Rightarrow> c0))
   \<and> valueCol (onUpload_response (PreviewOk json) st) =
     (case find names_a_value (columns json) of
        Some c \<Rightarrow> c
      | None \<Rightarrow> (case columns json of
                   [] \<Rightarrow> []
                 | [c0] \<Rightarrow> c0
                 | c0 # c1 # cs \<Rightarrow> if c1 \<noteq> [] then c1 else c0))
   \<and> (columns json = [] \<longrightarrow>
        dateCol (onUpload_response (PreviewOk json) st) = []
        \<and> valueCol (onUpload_response (PreviewOk json) st) = [])"
proof -
  have d: "regex_test date_pattern = names_a_date"
    by (rule ext) (rule regex_test_date)
  have v: "regex_test value_pattern = names_a_value"
    by (rule ext) (rule regex_test_value)
  show ?thesis
    by (simp add: onUpload_response_def pick_date_eq pick_value_eq d v)
qed

text \<open>
  On the header Open, DATE, Close, Timestamp, Yield the choice is DATE and Close; on the
  Japanese header it is the second and the third column; on a, b, c it is a and b; on no
  columns it is the empty string twice. Each choice is read off the theorem and the wording
  of the patterns alone.
\<close>

theorem onUpload_picks_columns_witness:
  "dateCol (onUpload_response (PreviewOk (preview_of price_header)) initial) = ascii ''DATE''
   \<and> valueCol (onUpload_response (PreviewOk (preview_of price_header)) initial) = ascii ''Close''
   \<and> dateCol (onUpload_response (PreviewOk (preview_of japanese_header)) initial) =
       [26085, 20184]
   \<and> valueCol (onUpload_response (PreviewOk (preview_of japanese_header)) initial) =
       [32066, 20516]
   \<and> dateCol (onUpload_response (PreviewOk (preview_of plain_header)) initial) = ascii ''a''
   \<and> valueCol (onUpload_response (PreviewOk (preview_of plain_header)) initial) = ascii ''b''
   \<and> columns no_columns = []
   \<and> dateCol (onUpload_response (PreviewOk no_columns) initial) = []
   \<and> valueCol (onUpload_response (PreviewOk no_columns) initial) = []"
proof -
  note words = names_a_date_def names_a_value_def occurs_in_def lower_case_def upt_rec
  have price:
    "find names_a_date price_header = Some (ascii ''DATE'')"
    "find names_a_value price_header = Some (ascii ''Close'')"
    by (simp_all add: price_header_def ascii_def words)
  have japanese:
    "find names_a_date japanese_header = Some [26085, 20184]"
    "find names_a_value japanese_header = Some [32066, 20516]"
    by (simp_all add: japanese_header_def ascii_def words)
  have plain:
    "find names_a_date plain_header = None"
    "find names_a_value plain_header = None"
    "plain_header = [ascii ''a'', ascii ''b'', ascii ''c'']"
    by (simp_all add: plain_header_def ascii_def words)
  have cols: "columns (preview_of price_header) = price_header"
    "columns (preview_of japanese_header) = japanese_header"
    "columns (preview_of plain_header) = plain_header"
    "columns no_columns = []"
    by (simp_all add: preview_of_def no_columns_def)
  show ?thesis
    using onUpload_picks_columns [of "preview_of price_header" initial]
          onUpload_picks_columns [of "preview_of japanese_header" initial]
          onUpload_picks_columns [of "preview_of plain_header" initial]
          onUpload_picks_columns [of no_columns initial]
    by (simp add: cols price japanese plain(1,2)) (simp add: plain(3) ascii_def)
qed

text \<open>The selection on the header of a price file, and on headers without a match.\<close>

lemma pick_on_sample_header:
  "pick_date (map ascii [''Open'', ''DATE'', ''Close'']) = ascii ''DATE''
   \<and> pick_value (map ascii [''Open'', ''DATE'', ''Close'']) = ascii ''Close''"
  by (simp add: pick_date_eq pick_value_eq regex_test_def date_pattern_def value_pattern_def
           ascii_def canonicalize_def)

lemma pick_without_match:
  "pick_date (map ascii [''a'', ''b'', ''c'']) = ascii ''a''
   \<and> pick_value (map ascii [''a'', ''b'', ''c'']) = ascii ''b''
   \<and> pick_value [ascii ''a'', []] = ascii ''a''"
  by (simp add: pick_date_eq pick_value_eq regex_test_def date_pattern_def value_pattern_def
           ascii_def canonicalize_def)

text \<open>A preview that is refused or that throws changes nothing.\<close>

lemma onUpload_response_failed:
  "onUpload_response PreviewNotOk st = st \<and> onUpload_response PreviewThrows st = st"
  by (simp add: onUpload_response_def)

section \<open>The wizard's step\<close>

lemma onBack_step: "activeStep (onBack st) = max 0 (activeStep st - 1)"
  by (simp add: onBack_def)

lemma onNext_step:
  "activeStep (onNext st) = (if canNext st then min 4 (activeStep st + 1) else activeStep st)"
  by (simp add: onNext_def)

lemma toggleReportMode_step: "activeStep (toggleReportMode r st) = activeStep st"
  by (simp add: toggleReportMode_def Let_def split: option.splits)

lemma nextBeat_step: "activeStep (nextBeat r st) = activeStep st"
  by (simp add: nextBeat_def Let_def split: option.splits)

lemma replay_step: "activeStep (replay r st) = activeStep st"
  by (simp add: replay_def Let_def split: option.splits)

lemma runForecast_step: "activeStep (runForecast out st) = activeStep st"
  by (simp add: runForecast_def Let_def split: forecast_outcome.splits)

lemma onUpload_response_step: "activeStep (onUpload_response out st) = activeStep st"
  by (simp add: onUpload_response_def split: preview_outcome.splits)

text \<open>Every event of the component keeps the step in range, not only the two buttons.\<close>

lemma handler_in_range: "in_range st \<Longrightarrow> in_range (handler st e)"
  by (cases e)
     (auto simp: in_range_def onBack_step onNext_step toggleReportMode_step nextBeat_step
                 replay_step runForecast_step onUpload_response_step onUpload_file_def
                 onUpload_parsed_def closeReport_def
           split: option.splits)

lemma fire_in_range: "in_range st \<Longrightarrow> in_range (fire st e)"
  by (simp add: fire_def handler_in_range)

lemma run_in_range: "in_range st \<Longrightarrow> in_range (run st es)"
  unfolding run_def
  by (induction es arbitrary: st) (simp_all add: fire_in_range)

text \<open>
  C9. The back button takes the step \<open>s\<close> to \<open>max 0 (s - 1)\<close>; the next button takes it to
  \<open>min 4 (s + 1)\<close> and only when \<open>canNext\<close> holds, which at step 0 asks for a file and at
  step 3 for both column names; from a step in 0..4 no sequence of events leaves 0..4.
\<close>

theorem activeStep_stays_in_range:
  "activeStep (onBack st) = max 0 (activeStep st - 1)
   \<and> activeStep (onNext st) = (if canNext st then min 4 (activeStep st + 1) else activeStep st)
   \<and> (activeStep st = 0 \<longrightarrow> canNext st = (file st \<noteq> None))
   \<and> (activeStep st = 3 \<longrightarrow> canNext st = (dateCol st \<noteq> [] \<and> valueCol st \<noteq> []))
   \<and> (0 \<le> activeStep st \<and> activeStep st \<le> 4 \<longrightarrow>
        0 \<le> activeStep (run st es) \<and> activeStep (run st es) \<le> 4)"
  using run_in_range [of st es]
  by (simp add: onBack_step onNext_step canNext_def in_range_def)

theorem activeStep_stays_in_range_witness:
  "activeStep initial = 0 \<and> \<not> canNext initial
   \<and> activeStep (run initial [Next, Back]) = 0
   \<and> activeStep at_columns = 3 \<and> \<not> canNext at_columns
   \<and> activeStep (run at_columns [Next, Next]) = 3
   \<and> activeStep (run ready [Next, Back, Back, Next, Next, Next]) = 4"
  using activeStep_stays_in_range [of initial "[Next, Back]"]
        activeStep_stays_in_range [of at_columns "[Next, Next]"]
        activeStep_stays_in_range [of ready "[Next, Back, Back, Next, Next, Next]"]
  by (simp add: run_def fire_def render_throws_def ready_def at_columns_def initial_def
           onBack_def onNext_def canNext_def ascii_def)

section \<open>Replaying the narrative\<close>

text \<open>
  C6. With a script that has a first beat \<open>b\<close>: whatever the current beat, the replay button
  of the report panel sets the current beat to 0 and the highlighted metrics to those of
  \<open>b\<close>, and so does switching report mode on.
\<close>

theorem replay_restarts_script:
  assumes "result st = Some (Response r)" and "narrativeScript r = Some (b # bs)"
  shows "(reportMode st \<longrightarrow>
            currentScript (fire st Replay) = 0
            \<and> highlightedMetrics (fire st Replay) = highlight b)
         \<and> (tab st = 1 \<and> \<not> reportMode st \<longrightarrow>
            reportMode (fire st ToggleReport)
            \<and> currentScript (fire st ToggleReport) = 0
            \<and> highlightedMetrics (fire st ToggleReport) = highlight b)"
  using assms
  by (simp add: fire_def render_throws_def with_script_def replay_def toggleReportMode_def
           script_at_def Let_def)

theorem replay_restarts_script_witness:
  "result reporting = Some (Response sample_response)
   \<and> narrativeScript sample_response = Some [sample_beat, second_beat]
   \<and> reportMode reporting \<and> currentScript reporting = 1
   \<and> currentScript (fire reporting Replay) = 0
   \<and> highlightedMetrics (fire reporting Replay) = highlight sample_beat
   \<and> tab viewing = 1 \<and> \<not> reportMode viewing
   \<and> reportMode (fire viewing ToggleReport)
   \<and> currentScript (fire viewing ToggleReport) = 0
   \<and> highlightedMetrics (fire viewing ToggleReport) = highlight sample_beat"
proof -
  have r: "result reporting = Some (Response sample_response)"
          "result viewing = Some (Response sample_response)"
    by (simp_all add: reporting_def viewing_def)
  have s: "narrativeScript sample_response = Some (sample_beat # [second_beat])"
    by (simp add: sample_response_def)
  have m: "reportMode reporting" "currentScript reporting = 1"
          "tab viewing = 1" "\<not> reportMode viewing"
    by (simp_all add: reporting_def viewing_def ready_def initial_def)
  show ?thesis
    using replay_restarts_script [OF r(1) s] replay_restarts_script [OF r(2) s] r s m
    by simp
qed

text \<open>
  With an empty script there is no first beat: the replay still returns to beat 0, and the
  highlighted metrics stay as they were.
\<close>

lemma replay_empty_script:
  "narrativeScript r = Some [] \<Longrightarrow>
     currentScript (replay r st) = 0 \<and> highlightedMetrics (replay r st) = highlightedMetrics st"
  by (simp add: replay_def script_at_def)

text \<open>Stepping forward and then replaying, on the sample response.\<close>

lemma next_then_replay:
  "currentScript (run viewing [ToggleReport, NextBeat]) = 1
   \<and> highlightedMetrics (run viewing [ToggleReport, NextBeat]) = highlight second_beat
   \<and> currentScript (run viewing [ToggleReport, NextBeat, Replay]) = 0
   \<and> highlightedMetrics (run viewing [ToggleReport, NextBeat, Replay]) = highlight sample_beat"
  by (simp add: run_def fire_def render_throws_def viewing_def ready_def initial_def
           with_script_def sample_response_def toggleReportMode_def nextBeat_def replay_def
           script_at_def script_length_def)

section \<open>What a forecast request leaves behind\<close>

text \<open>
  A request is sent only with a file and both column names. The body of any response
  becomes the result, and a throw gives the fixed response of the \<open>catch\<close> branch. In both
  cases the result tab is selected and \<open>busy\<close> is cleared.
\<close>

lemma runForecast_result:
  "(file st \<noteq> None \<and> dateCol st \<noteq> [] \<and> valueCol st \<noteq> [] \<longrightarrow>
      result (runForecast out st) =
        Some (case out of
                ForecastBody ok body \<Rightarrow> body
              | ForecastThrows \<Rightarrow> Response failure_response)
      \<and> \<not> busy (runForecast out st) \<and> tab (runForecast out st) = 1)
   \<and> (file st = None \<or> dateCol st = [] \<or> valueCol st = [] \<longrightarrow> runForecast out st = st)"
  by (auto simp: runForecast_def Let_def split: forecast_outcome.splits)

lemma runForecast_ignores_ok:
  "runForecast (ForecastBody True body) st = runForecast (ForecastBody False body) st"
  by (simp add: runForecast_def)

lemma runForecast_on_throw:
  "result (runForecast ForecastThrows ready) = Some (Response failure_response)
   \<and> history failure_response = [] \<and> forecast failure_response = []
   \<and> warnings failure_response \<noteq> []"
  by (simp add: runForecast_def ready_def initial_def failure_response_def ascii_def)


section \<open>The Forecaster's output\<close>

lemma future_dates_length: "length (future_dates d n) = n"
  by (simp add: future_dates_def)

lemma future_dates_nth: "i < n \<Longrightarrow> future_dates d n ! i = d + 1 + int i"
  by (simp add: future_dates_def)

text \<open>
  C3. For a series of at least two points and a positive horizon, the Forecaster either
  returns exactly \<open>horizon_days\<close> points, the \<open>i\<close>-th of them dated \<open>i + 1\<close> days after the
  last observation, or fails because the library failed.
\<close>

theorem forecaster_length_and_dates:
  assumes "2 \<le> length series" and "0 < horizon_days"
  shows "case forecaster lib series horizon_days of
           Inr out \<Rightarrow>
             length out = nat horizon_days
             \<and> (\<forall>i < nat horizon_days.
                  point_date (out ! i) = timestamp (last series) + 1 + int i)
         | Inl e \<Rightarrow> e = ForecastLibraryError \<and> lib series = None"
  using assms
  by (auto simp: forecaster_def minimum_points_def future_dates_length future_dates_nth
           split: option.splits prod.splits)

theorem forecaster_length_and_dates_witness:
  "2 \<le> length sample_series \<and> (0::int) < 3
   \<and> (case forecaster flat_library sample_series 3 of
         Inr out \<Rightarrow> map point_date out = [19725, 19726, 19727]
       | Inl e \<Rightarrow> False)"
proof -
  have h: "2 \<le> length sample_series" "(0::int) < 3"
    by (simp_all add: sample_series_def)
  have three: "[0..<3] = [0, 1, 2]"
    by (simp add: upt_rec)
  show ?thesis
    using forecaster_length_and_dates [OF h, of flat_library] h
    by (simp add: forecaster_def minimum_points_def flat_library_def future_dates_def
             sample_series_def three)
qed

text \<open>
  C8. With a horizon of zero the Forecaster fails with the validation error, and for no
  horizon does it return an empty sequence.
\<close>

theorem forecaster_zero_horizon:
  "forecaster lib series 0 = Inl ValidationError \<and> forecaster lib series h \<noteq> Inr []"
  by (auto simp: forecaster_def future_dates_def split: option.splits)

text \<open>
  The three numbers of a point are the ones the library gave for its date: whether the lower
  bound is below the estimate and the estimate below the upper bound is the library's
  matter.
\<close>

lemma forecaster_points_from_library:
  assumes "forecaster lib series horizon_days = Inr out" and "lib series = Some predict"
    and "i < length out"
  shows "(point_estimate (out ! i), lower_bound (out ! i), upper_bound (out ! i)) =
           predict (point_date (out ! i))"
  using assms
  by (auto simp: forecaster_def future_dates_def split: if_splits prod.splits)

section \<open>The shape of a response\<close>

lemma ascii_eq_iff: "ascii a = ascii b \<longleftrightarrow> a = b"
  by (simp add: ascii_def inj_on_def)

lemma optional_names:
  "map fst (optional name enc v) = (case v of None \<Rightarrow> [] | Some x \<Rightarrow> [ascii name])"
  by (simp add: optional_def split: option.splits)

lemma optional_lookup:
  "map_of (optional name enc v) k = (if k = ascii name then map_option enc v else None)"
  by (simp add: optional_def split: option.splits)

lemma ForecastResponse_member_names:
  "member_names (ForecastResponse_json r) =
     map ascii [''history'', ''forecast'', ''summaryText'', ''warnings'']
     @ (case diagnostics r of None \<Rightarrow> [] | Some x \<Rightarrow> [ascii ''diagnostics''])
     @ (case profile r of None \<Rightarrow> [] | Some x \<Rightarrow> [ascii ''profile''])
     @ (case seasonality r of None \<Rightarrow> [] | Some x \<Rightarrow> [ascii ''seasonality''])
     @ (case trend r of None \<Rightarrow> [] | Some x \<Rightarrow> [ascii ''trend''])
     @ (case forecast_summary r of None \<Rightarrow> [] | Some x \<Rightarrow> [ascii ''forecast_summary''])
     @ (case explanations r of None \<Rightarrow> [] | Some x \<Rightarrow> [ascii ''explanations''])
     @ (case narrativeScript r of None \<Rightarrow> [] | Some x \<Rightarrow> [ascii ''narrativeScript''])
     @ (case targets r of None \<Rightarrow> [] | Some x \<Rightarrow> [ascii ''targets''])"
  by (simp add: member_names_def ForecastResponse_json_def optional_names)

lemma ForecastResponse_names_subset:
  "set (member_names (ForecastResponse_json r))
     \<subseteq> set listed_names \<union> {ascii ''summaryText'', ascii ''targets''}"
  unfolding ForecastResponse_member_names listed_names_def
  by (auto split: option.splits)

lemma ForecastResponse_names_distinct: "distinct (member_names (ForecastResponse_json r))"
  unfolding ForecastResponse_member_names
  by (simp add: ascii_eq_iff split: option.splits)

lemma member_ForecastResponse:
  "member (ForecastResponse_json r) (ascii ''history'') =
     Some (JArray (map HistoryPoint_json (history r)))"
  "member (ForecastResponse_json r) (ascii ''forecast'') =
     Some (JArray (map ForecastPoint_json (forecast r)))"
  "member (ForecastResponse_json r) (ascii ''summaryText'') = Some (JString (summaryText r))"
  "member (ForecastResponse_json r) (ascii ''warnings'') =
     Some (JArray (map JString (warnings r)))"
  "member (ForecastResponse_json r) (ascii ''diagnostics'') =
     map_option diagnostics_json (diagnostics r)"
  "member (ForecastResponse_json r) (ascii ''narrativeScript'') =
     map_option (\<lambda>bs. JArray (map beat_json bs)) (narrativeScript r)"
  by (simp_all add: member_def ForecastResponse_json_def optional_lookup ascii_eq_iff
         strings_json_def map_add_def split: option.splits)

lemma element_names:
  "member_names (HistoryPoint_json p) = map ascii [''ds'', ''y'']"
  "member_names (ForecastPoint_json q) =
     map ascii [''ds'', ''yhat'', ''yhat_lower'', ''yhat_upper'']"
  "member_names (diagnostics_json d) = map ascii [''outliers'', ''missing'', ''deduped'']"
  by (simp_all add: member_names_def HistoryPoint_json_def ForecastPoint_json_def
         diagnostics_json_def)

text \<open>
  C1, as the code has it. A response is an object whose members are \<open>history\<close>, \<open>forecast\<close>,
  \<open>summaryText\<close> and \<open>warnings\<close>, followed by those of \<open>diagnostics\<close>, \<open>profile\<close>,
  \<open>seasonality\<close>, \<open>trend\<close>, \<open>forecast_summary\<close>, \<open>explanations\<close>, \<open>narrativeScript\<close> and
  \<open>targets\<close> that are set, each once. \<open>history\<close> is an array of \<open>{ds, y}\<close>, \<open>forecast\<close> an
  array of \<open>{ds, yhat, yhat_lower, yhat_upper}\<close>, \<open>warnings\<close> an array of strings and
  \<open>diagnostics\<close> is \<open>{outliers, missing, deduped}\<close>.
\<close>

theorem ForecastResponse_json_shape:
  "member_names (ForecastResponse_json r) =
     map ascii [''history'', ''forecast'', ''summaryText'', ''warnings'']
     @ (case diagnostics r of None \<Rightarrow> [] | Some x \<Rightarrow> [ascii ''diagnostics''])
     @ (case profile r of None \<Rightarrow> [] | Some x \<Rightarrow> [ascii ''profile''])
     @ (case seasonality r of None \<Rightarrow> [] | Some x \<Rightarrow> [ascii ''seasonality''])
     @ (case trend r of None \<Rightarrow> [] | Some x \<Rightarrow> [ascii ''trend''])
     @ (case forecast_summary r of None \<Rightarrow> [] | Some x \<Rightarrow> [ascii ''forecast_summary''])
     @ (case explanations r of None \<Rightarrow> [] | Some x \<Rightarrow> [ascii ''explanations''])
     @ (case narrativeScript r of None \<Rightarrow> [] | Some x \<Rightarrow> [ascii ''narrativeScript''])
     @ (case targets r of None \<Rightarrow> [] | Some x \<Rightarrow> [ascii ''targets''])
   \<and> set (member_names (ForecastResponse_json r))
       \<subseteq> set listed_names \<union> {ascii ''summaryText'', ascii ''targets''}
   \<and> distinct (member_names (ForecastResponse_json r))
   \<and> member (ForecastResponse_json r) (ascii ''history'') =
       Some (JArray (map HistoryPoint_json (history r)))
   \<and> member_names (HistoryPoint_json p) = map ascii [''ds'', ''y'']
   \<and> member (ForecastResponse_json r) (ascii ''forecast'') =
       Some (JArray (map ForecastPoint_json (forecast r)))
   \<and> member_names (ForecastPoint_json q) =
       map ascii [''ds'', ''yhat'', ''yhat_lower'', ''yhat_upper'']
   \<and> member (ForecastResponse_json r) (ascii ''summaryText'') = Some (JString (summaryText r))
   \<and> member (ForecastResponse_json r) (ascii ''warnings'') =
       Some (JArray (map JString (warnings r)))
   \<and> member (ForecastResponse_json r) (ascii ''diagnostics'') =
       map_option diagnostics_json (diagnostics r)
   \<and> member_names (diagnostics_json d) = map ascii [''outliers'', ''missing'', ''deduped'']"
  using ForecastResponse_member_names [of r] ForecastResponse_names_subset [of r]
        ForecastResponse_names_distinct [of r]
  by (simp only: member_ForecastResponse element_names simp_thms)

theorem ForecastResponse_json_shape_witness:
  "member_names (ForecastResponse_json sample_response) =
     map ascii [''history'', ''forecast'', ''summaryText'', ''warnings'', ''diagnostics'',
                ''profile'', ''seasonality'', ''trend'', ''forecast_summary'', ''explanations'',
                ''narrativeScript'']
   \<and> member_names (ForecastResponse_json failure_response) =
     map ascii [''history'', ''forecast'', ''summaryText'', ''warnings'']"
  using ForecastResponse_json_shape [of sample_response]
        ForecastResponse_json_shape [of failure_response]
  by (simp add: sample_response_def failure_response_def)

text \<open>
  C1, as the claim has it, fails: the members of a response in which every listed part is
  set are not the listed names, since \<open>summaryText\<close> is among them.
\<close>

theorem response_names_not_listed:
  "set (member_names (ForecastResponse_json sample_response)) \<noteq> set listed_names"
proof -
  have "ascii ''summaryText'' \<in> set (member_names (ForecastResponse_json sample_response))"
    by (simp add: ForecastResponse_member_names)
  moreover have "ascii ''summaryText'' \<notin> set listed_names"
    by (simp add: listed_names_def ascii_eq_iff)
  ultimately show ?thesis by blast
qed

section \<open>The shape of a narrative beat\<close>

text \<open>
  C5, as the code has it. A beat of \<open>narrativeScript\<close> is an object with exactly the members
  \<open>id\<close>, \<open>text\<close>, \<open>highlight\<close> and \<open>waitMs\<close>, where \<open>highlight\<close> is an array of strings and
  \<open>waitMs\<close> a number; the script, when set, is the array of its beats.
\<close>

theorem beat_fields:
  "member_names (beat_json b) = map ascii [''id'', ''text'', ''highlight'', ''waitMs'']
   \<and> member (beat_json b) (ascii ''highlight'') = Some (JArray (map JString (highlight b)))
   \<and> member (beat_json b) (ascii ''waitMs'') = Some (JNumber (waitMs b))
   \<and> member (ForecastResponse_json r) (ascii ''narrativeScript'') =
       map_option (\<lambda>bs. JArray (map beat_json bs)) (narrativeScript r)"
  by (simp add: member_ForecastResponse)
     (simp add: member_names_def member_def beat_json_def ascii_eq_iff strings_json_def)

text \<open>C5, as the claim has it, fails: no beat has a member named \<open>wait_ms\<close>.\<close>

theorem beat_has_no_wait_ms:
  "member_names (beat_json sample_beat) \<noteq> map ascii [''id'', ''text'', ''highlight'', ''wait_ms'']
   \<and> member (beat_json sample_beat) (ascii ''wait_ms'') = None"
  by (simp add: member_names_def member_def beat_json_def ascii_eq_iff)

end
